theory Spec2Isabelle
  imports Main
begin

section \<open>Asynchronous error handling in Express: the three sample programs\<close>

text \<open>
  The repository holds three programs, \<^verbatim>\<open>promises.js\<close>, \<^verbatim>\<open>generators.js\<close> and
  \<^verbatim>\<open>asyncAwait.js\<close>. Each registers one route and one error-handling middleware with
  Express and listens on a port. The route handler awaits two operations of the module
  \<^verbatim>\<open>testUtils\<close> and writes to the response in between; a failure is handed to the
  callback \<^verbatim>\<open>next\<close>.

  The model is a state-passing one. A \<open>world\<close> holds the response of the request under
  way, together with logs of what was called. A JavaScript function is a HOL function from
  its argument list and the world to a completion and the new world.
\<close>

subsection \<open>Values\<close>

text \<open>
  The values the programs handle: \<^verbatim>\<open>undefined\<close>, strings, and error objects with their
  \<^verbatim>\<open>name\<close> and \<^verbatim>\<open>message\<close>.
\<close>

datatype jsval = Undefined | Str string | ErrorObj string string

definition new_Error :: "string \<Rightarrow> jsval" where
  "new_Error m = ErrorObj ''Error'' m"

definition TypeError :: "string \<Rightarrow> jsval" where
  "TypeError m = ErrorObj ''TypeError'' m"

text \<open>String conversion, as a template literal applies it to an interpolated value.\<close>

fun ToString :: "jsval \<Rightarrow> string" where
  "ToString Undefined = ''undefined''"
| "ToString (Str s) = s"
| "ToString (ErrorObj n m) =
     (if n = [] then m else if m = [] then n else n @ '': '' @ m)"

text \<open>The template literal \<^verbatim>\<open>`${result}\n`\<close>.\<close>

definition template :: "jsval \<Rightarrow> string" where
  "template result = ToString result @ [CHR 0x0A]"

subsection \<open>The response and the world\<close>

text \<open>
  \<open>res_chunks\<close> is the data handed to the response by \<^verbatim>\<open>res.write\<close> and \<^verbatim>\<open>res.end\<close>,
  in order; the body of the response is its concatenation. The other fields are logs:
  \<open>next_calls\<close> the arguments with which application code called \<^verbatim>\<open>next\<close>,
  \<open>stage_calls\<close> the values with which Express invoked an error-handling middleware,
  \<open>unhandled\<close> the reasons of rejected promises that nothing handled, and \<open>passed_on\<close>
  the requests that left the application's stack for Express's default handler, with the
  error they carried.
\<close>

record world =
  res_chunks :: "string list"
  res_ended :: bool
  next_calls :: "jsval list"
  stage_calls :: "jsval list"
  unhandled :: "jsval list"
  passed_on :: "jsval option list"

definition fresh :: world where
  "fresh = \<lparr>res_chunks = [], res_ended = False, next_calls = [], stage_calls = [],
            unhandled = [], passed_on = []\<rparr>"

definition body :: "world \<Rightarrow> string" where
  "body w = concat (res_chunks w)"

record request =
  req_method :: string
  req_path :: string

subsection \<open>Functions, arguments and completions\<close>

text \<open>
  An argument is the request object, the response object, a callback or a plain value.
  A promise is modelled by the state it settles in. A call completes by returning a
  value, by returning a promise, or by throwing.
\<close>

datatype arg = Req request | Res | Callback "jsval \<Rightarrow> world \<Rightarrow> world" | Val jsval

datatype promise = Fulfilled jsval | Rejected jsval

datatype ret = Returns jsval | ReturnsPromise promise | Throws jsval

type_synonym fn = "arg list \<Rightarrow> world \<Rightarrow> ret \<times> world"

text \<open>Reading a parameter or \<^verbatim>\<open>args[i]\<close>: a missing argument is \<^verbatim>\<open>undefined\<close>.\<close>

definition nth_arg :: "arg list \<Rightarrow> nat \<Rightarrow> arg" where
  "nth_arg args i = (if i < length args then args ! i else Val Undefined)"

text \<open>Statement sequencing: a throw skips the statements that follow.\<close>

definition and_then :: "ret \<times> world \<Rightarrow> (world \<Rightarrow> ret \<times> world) \<Rightarrow> ret \<times> world" where
  "and_then rw k = (case rw of (Throws e, w) \<Rightarrow> (Throws e, w) | (_, w) \<Rightarrow> k w)"

subsection \<open>The response object\<close>

text \<open>
  \<^verbatim>\<open>res.write(chunk)\<close> adds the chunk to the response; once the response has ended
  a chunk no longer reaches the body. \<^verbatim>\<open>res.end(data)\<close> sends the data, when there is
  some, and ends the response. On a receiver that is not the response object the method
  does not exist and the call throws. The value \<^verbatim>\<open>res.write\<close> returns is used nowhere
  and is left out.
\<close>

definition res_write :: "string \<Rightarrow> world \<Rightarrow> world" where
  "res_write s w = (if res_ended w then w else w\<lparr>res_chunks := res_chunks w @ [s]\<rparr>)"

definition call_write :: "arg \<Rightarrow> string \<Rightarrow> world \<Rightarrow> ret \<times> world" where
  "call_write receiver s w =
     (case receiver of
        Res \<Rightarrow> (Returns Undefined, res_write s w)
      | _ \<Rightarrow> (Throws (TypeError ''write is not a function''), w))"

definition res_end :: "jsval \<Rightarrow> world \<Rightarrow> ret \<times> world" where
  "res_end data w =
     (case data of
        Undefined \<Rightarrow> (Returns Undefined, w\<lparr>res_ended := True\<rparr>)
      | Str s \<Rightarrow>
          (Returns Undefined,
           if res_ended w then w
           else w\<lparr>res_chunks := res_chunks w @ [s], res_ended := True\<rparr>)
      | ErrorObj n m \<Rightarrow>
          (Throws (TypeError ''first argument must be a string or Buffer''), w))"

definition call_end :: "arg \<Rightarrow> jsval \<Rightarrow> world \<Rightarrow> ret \<times> world" where
  "call_end receiver data w =
     (case receiver of
        Res \<Rightarrow> res_end data w
      | _ \<Rightarrow> (Throws (TypeError ''end is not a function''), w))"

text \<open>The property read \<^verbatim>\<open>er.message\<close>; reading a property of \<^verbatim>\<open>undefined\<close> throws.\<close>

fun get_message :: "arg \<Rightarrow> jsval + jsval" where
  "get_message (Val Undefined) =
     Inl (TypeError ''cannot read property message of undefined'')"
| "get_message (Val (Str s)) = Inr Undefined"
| "get_message (Val (ErrorObj n m)) = Inr (Str m)"
| "get_message _ = Inr Undefined"

subsection \<open>Promises\<close>

text \<open>
  The callbacks of a promise run after the synchronous code that attached them. In the
  three programs attaching the callbacks is the last thing a handler does, and Express
  does nothing after a handler returns, so running a callback where it is attached gives
  the same sequence of effects; the model does that, and a promise is the state it
  settles in.

  \<^verbatim>\<open>p.then(f)\<close>: \<open>f\<close> runs on the value of a fulfilled \<open>p\<close>; what it returns or throws
  settles the new promise. A rejected \<open>p\<close> passes through.
\<close>

fun promise_then ::
  "promise \<Rightarrow> (jsval \<Rightarrow> world \<Rightarrow> ret \<times> world) \<Rightarrow> world \<Rightarrow> promise \<times> world" where
  "promise_then (Fulfilled v) f w =
     (case f v w of
        (Returns u, w') \<Rightarrow> (Fulfilled u, w')
      | (ReturnsPromise q, w') \<Rightarrow> (q, w')
      | (Throws e, w') \<Rightarrow> (Rejected e, w'))"
| "promise_then (Rejected e) f w = (Rejected e, w)"

text \<open>
  \<^verbatim>\<open>p.catch(cb)\<close>: a callback runs on the reason of a rejected \<open>p\<close> and the new promise
  is fulfilled with what it returns (a callback of the model returns \<^verbatim>\<open>undefined\<close>).
  A \<open>cb\<close> that is not a function is ignored, and so is a fulfilled \<open>p\<close>.
\<close>

fun promise_catch :: "promise \<Rightarrow> arg \<Rightarrow> world \<Rightarrow> promise \<times> world" where
  "promise_catch (Rejected e) (Callback f) w = (Fulfilled Undefined, f e w)"
| "promise_catch p cb w = (p, w)"

text \<open>A promise that is dropped: a rejection nobody handled is reported by the runtime.\<close>

fun discard :: "promise \<Rightarrow> world \<Rightarrow> world" where
  "discard (Fulfilled v) w = w"
| "discard (Rejected e) w = w\<lparr>unhandled := unhandled w @ [e]\<rparr>"

subsection \<open>Generators and their drivers\<close>

text \<open>
  The body of a generator function or of an \<^verbatim>\<open>async\<close> function, as the tree of what it
  does next: return, throw, write to a response, or suspend on a promise. A suspended
  body is resumed with the value of the promise (first continuation) or has the reason
  thrown into it (second continuation; \<open>Throw\<close> when no \<^verbatim>\<open>try\<close> surrounds the
  suspension).
\<close>

datatype generator =
    Return jsval
  | Throw jsval
  | Write arg string generator
  | Yield promise "jsval \<Rightarrow> generator" "jsval \<Rightarrow> generator"

text \<open>
  The driver behind \<^verbatim>\<open>Promise.coroutine\<close> and behind an \<^verbatim>\<open>async\<close> function: it runs
  the body to its end, and anything thrown on the way, also before the first suspension,
  rejects the promise of the call.
\<close>

primrec drive :: "generator \<Rightarrow> world \<Rightarrow> promise \<times> world" where
  "drive (Return v) w = (Fulfilled v, w)"
| "drive (Throw e) w = (Rejected e, w)"
| "drive (Write receiver s g) w =
     (case call_write receiver s w of
        (Throws e, w') \<Rightarrow> (Rejected e, w')
      | (_, w') \<Rightarrow> drive g w')"
| "drive (Yield p k h) w =
     (case p of Fulfilled v \<Rightarrow> drive (k v) w | Rejected e \<Rightarrow> drive (h e) w)"

definition Promise_coroutine ::
  "(arg list \<Rightarrow> generator) \<Rightarrow> arg list \<Rightarrow> world \<Rightarrow> promise \<times> world" where
  "Promise_coroutine genFn = (\<lambda>args w. drive (genFn args) w)"

definition async_function :: "(arg list \<Rightarrow> generator) \<Rightarrow> fn" where
  "async_function fbody =
     (\<lambda>args w. case drive (fbody args) w of (p, w') \<Rightarrow> (ReturnsPromise p, w'))"

subsection \<open>The module testUtils\<close>

text \<open>
  The module's file is not among the sources; the programs take it as a parameter. A
  call of one of its two operations hands back a promise that is fulfilled or rejected,
  or throws before handing anything back.
\<close>

datatype task = Resolves jsval | Rejects jsval | Raises jsval

record testUtils =
  asyncTaskGood :: task
  asyncTaskBad :: task

fun call_task :: "task \<Rightarrow> jsval + promise" where
  "call_task (Resolves v) = Inr (Fulfilled v)"
| "call_task (Rejects e) = Inr (Rejected e)"
| "call_task (Raises e) = Inl e"

text \<open>\<^verbatim>\<open>yield t()\<close> and \<^verbatim>\<open>await t()\<close>, with no \<^verbatim>\<open>try\<close> around them.\<close>

definition yield_call :: "task \<Rightarrow> (jsval \<Rightarrow> generator) \<Rightarrow> generator" where
  "yield_call t k = (case call_task t of Inl e \<Rightarrow> Throw e | Inr p \<Rightarrow> Yield p k Throw)"

subsection \<open>The wrappers\<close>

text \<open>
  \<^verbatim>\<open>asyncAwait.js\<close>:
  \<^verbatim>\<open>let wrap = fn => (...args) => fn(...args).catch(args[2])\<close>.
  The arrow function returns the promise of \<^verbatim>\<open>catch\<close>. Nothing in it catches what
  \<open>fn\<close> throws, and a value of \<open>fn\<close> that is no promise has no method \<^verbatim>\<open>catch\<close>.
\<close>

definition asyncAwait_wrap :: "fn \<Rightarrow> fn" where
  "asyncAwait_wrap fn =
     (\<lambda>args w.
        case fn args w of
          (Throws e, w1) \<Rightarrow> (Throws e, w1)
        | (Returns v, w1) \<Rightarrow> (Throws (TypeError ''catch is not a function''), w1)
        | (ReturnsPromise p, w1) \<Rightarrow>
            (case promise_catch p (nth_arg args 2) w1 of
               (q, w2) \<Rightarrow> (ReturnsPromise q, w2)))"

text \<open>
  \<^verbatim>\<open>generators.js\<close>:
  \<^verbatim>\<open>function wrap (genFn) {
    var cr = Promise.coroutine(genFn)
    return function (req, res, next) {
      cr(req, res, next).catch(next)
    }
  }\<close>
  The function returned has three parameters; the promise of \<^verbatim>\<open>catch\<close> is dropped.
\<close>

definition generators_wrap :: "(arg list \<Rightarrow> generator) \<Rightarrow> fn" where
  "generators_wrap genFn =
     (let cr = Promise_coroutine genFn in
      (\<lambda>args w.
         let req = nth_arg args 0; res = nth_arg args 1; next = nth_arg args 2 in
         case cr [req, res, next] w of
           (p, w1) \<Rightarrow>
             (case promise_catch p next w1 of
                (q, w2) \<Rightarrow> (Returns Undefined, discard q w2))))"

subsection \<open>The route handlers\<close>

text \<open>
  \<^verbatim>\<open>promises.js\<close>:
  \<^verbatim>\<open>function (req, res, next) {
    testUtils.asyncTaskGood()
      .then(function (result) {
        res.write(`${result}\n`)
        return testUtils.asyncTaskBad()
      })
      .then(function (result) {
        res.write('will not make it here')
      })
      .catch(next)
  }\<close>
\<close>

definition promises_handler :: "testUtils \<Rightarrow> fn" where
  "promises_handler tu =
     (\<lambda>args w.
        let res = nth_arg args 1; next = nth_arg args 2 in
        case call_task (asyncTaskGood tu) of
          Inl e \<Rightarrow> (Throws e, w)
        | Inr p0 \<Rightarrow>
            (case promise_then p0
                    (\<lambda>result w.
                       and_then (call_write res (template result) w)
                         (\<lambda>w. case call_task (asyncTaskBad tu) of
                                 Inl e \<Rightarrow> (Throws e, w)
                               | Inr q \<Rightarrow> (ReturnsPromise q, w))) w of
               (p1, w1) \<Rightarrow>
                 (case promise_then p1
                         (\<lambda>result w.
                            and_then (call_write res ''will not make it here'' w)
                              (\<lambda>w. (Returns Undefined, w))) w1 of
                    (p2, w2) \<Rightarrow>
                      (case promise_catch p2 next w2 of
                         (p3, w3) \<Rightarrow> (Returns Undefined, discard p3 w3)))))"

text \<open>
  \<^verbatim>\<open>generators.js\<close>:
  \<^verbatim>\<open>function *(req, res) {
    let result = yield testUtils.asyncTaskGood()
    res.write(`${result}\n`)
    yield testUtils.asyncTaskBad()
    res.write('will not make it here')
  }\<close>
\<close>

definition generators_handler :: "testUtils \<Rightarrow> arg list \<Rightarrow> generator" where
  "generators_handler tu =
     (\<lambda>args.
        let res = nth_arg args 1 in
        yield_call (asyncTaskGood tu) (\<lambda>result.
          Write res (template result)
            (yield_call (asyncTaskBad tu) (\<lambda>_.
               Write res ''will not make it here'' (Return Undefined)))))"

text \<open>
  \<^verbatim>\<open>asyncAwait.js\<close>:
  \<^verbatim>\<open>async (req, res) => {
    let result = await testUtils.asyncTaskGood()
    res.write(`${result}\n`)
    await testUtils.asyncTaskBad()
    res.write('will not make it here')
  }\<close>
\<close>

definition asyncAwait_handler :: "testUtils \<Rightarrow> fn" where
  "asyncAwait_handler tu =
     async_function (\<lambda>args.
        let res = nth_arg args 1 in
        yield_call (asyncTaskGood tu) (\<lambda>result.
          Write res (template result)
            (yield_call (asyncTaskBad tu) (\<lambda>_.
               Write res ''will not make it here'' (Return Undefined)))))"

subsection \<open>The error-handling middleware\<close>

text \<open>
  The same in the three programs:
  \<^verbatim>\<open>function (er, req, res, next) { res.end(er.message) }\<close>.
\<close>

definition error_middleware :: fn where
  "error_middleware =
     (\<lambda>args w.
        let er = nth_arg args 0; res = nth_arg args 2 in
        case get_message er of
          Inl e \<Rightarrow> (Throws e, w)
        | Inr m \<Rightarrow> call_end res m w)"

subsection \<open>Express\<close>

text \<open>
  What the programs use of Express. An application is a stack of layers and the port it
  listens on. \<^verbatim>\<open>app.get(path, h)\<close> appends a route for the method GET;
  \<^verbatim>\<open>app.use(h)\<close> with a function of four parameters, as in the three programs,
  appends an error-handling middleware; \<^verbatim>\<open>app.listen(port)\<close> starts the server.
\<close>

datatype layer = Route string string fn | ErrorMiddleware fn

record app =
  stack :: "layer list"
  port :: "nat option"

definition express :: app where
  "express = \<lparr>stack = [], port = None\<rparr>"

definition app_get :: "string \<Rightarrow> fn \<Rightarrow> app \<Rightarrow> app" where
  "app_get path h a = a\<lparr>stack := stack a @ [Route ''GET'' path h]\<rparr>"

definition app_use :: "fn \<Rightarrow> app \<Rightarrow> app" where
  "app_use h a = a\<lparr>stack := stack a @ [ErrorMiddleware h]\<rparr>"

definition app_listen :: "nat \<Rightarrow> app \<Rightarrow> app" where
  "app_listen n a = a\<lparr>port := Some n\<rparr>"

text \<open>
  What \<^verbatim>\<open>next(err)\<close> takes for an error: any value but a falsy one (here \<^verbatim>\<open>undefined\<close>
  and the empty string) and the strings \<^verbatim>\<open>'route'\<close> and \<^verbatim>\<open>'router'\<close>, which Express
  reserves for leaving a route or a router.
\<close>

fun is_error :: "jsval \<Rightarrow> bool" where
  "is_error Undefined = False"
| "is_error (Str s) =
     (if s = [] then False
      else if s = ''route'' then False
      else if s = ''router'' then False
      else True)"
| "is_error (ErrorObj n m) = True"

definition as_error :: "jsval \<Rightarrow> jsval option" where
  "as_error e = (if is_error e then Some e else None)"

text \<open>
  What Express does with the completion of a handler: a value it returns is ignored, so a
  promise it returns is dropped; what it throws while it runs is caught and passed to
  the layers that follow, as \<^verbatim>\<open>next(err)\<close> would.
\<close>

definition settle :: "(jsval \<Rightarrow> world \<Rightarrow> world) \<Rightarrow> ret \<times> world \<Rightarrow> world" where
  "settle continue rw =
     (case rw of
        (Returns v, w) \<Rightarrow> w
      | (ReturnsPromise p, w) \<Rightarrow> discard p w
      | (Throws e, w) \<Rightarrow> continue e w)"

text \<open>The callback \<^verbatim>\<open>next\<close> a handler is given; its calls are logged.\<close>

definition next_callback :: "(jsval \<Rightarrow> world \<Rightarrow> world) \<Rightarrow> arg" where
  "next_callback continue =
     Callback (\<lambda>e w. continue e (w\<lparr>next_calls := next_calls w @ [e]\<rparr>))"

text \<open>
  A route registered for GET also answers HEAD requests.
\<close>

definition method_matches :: "string \<Rightarrow> string \<Rightarrow> bool" where
  "method_matches m requested = (requested = m \<or> (requested = ''HEAD'' \<and> m = ''GET''))"

text \<open>
  A request, possibly carrying an error, goes down the stack. A route runs when there is
  no error and method and path match; an error-handling middleware runs when there is an
  error. A request that reaches the end of the stack is passed on to the default handler
  of Express, which is not part of the programs.
\<close>

fun handle :: "layer list \<Rightarrow> request \<Rightarrow> jsval option \<Rightarrow> world \<Rightarrow> world" where
  "handle [] req err w = w\<lparr>passed_on := passed_on w @ [err]\<rparr>"
| "handle (Route m path h # ls) req None w =
     (if method_matches m (req_method req) \<and> req_path req = path
      then settle (\<lambda>e. handle ls req (as_error e))
             (h [Req req, Res, next_callback (\<lambda>e. handle ls req (as_error e))] w)
      else handle ls req None w)"
| "handle (Route m path h # ls) req (Some e) w = handle ls req (Some e) w"
| "handle (ErrorMiddleware h # ls) req None w = handle ls req None w"
| "handle (ErrorMiddleware h # ls) req (Some e) w =
     settle (\<lambda>e. handle ls req (as_error e))
       (h [Val e, Req req, Res, next_callback (\<lambda>e. handle ls req (as_error e))]
          (w\<lparr>stage_calls := stage_calls w @ [e]\<rparr>))"

text \<open>A request arriving at a port is answered by the application listening there.\<close>

definition serve :: "app \<Rightarrow> nat \<Rightarrow> request \<Rightarrow> world \<Rightarrow> world" where
  "serve a n req w = (if port a = Some n then handle (stack a) req None w else w)"

definition GET :: "string \<Rightarrow> request" where
  "GET path = \<lparr>req_method = ''GET'', req_path = path\<rparr>"

subsection \<open>The three programs\<close>

text \<open>
  Each file: \<^verbatim>\<open>let app = express()\<close>, \<^verbatim>\<open>app.get('/', ...)\<close>, \<^verbatim>\<open>app.use(...)\<close>,
  \<^verbatim>\<open>app.listen(3000)\<close>.
\<close>

definition promises_app :: "testUtils \<Rightarrow> app" where
  "promises_app tu =
     app_listen 3000 (app_use error_middleware
       (app_get ''/'' (promises_handler tu) express))"

definition generators_app :: "testUtils \<Rightarrow> app" where
  "generators_app tu =
     app_listen 3000 (app_use error_middleware
       (app_get ''/'' (generators_wrap (generators_handler tu)) express))"

definition asyncAwait_app :: "testUtils \<Rightarrow> app" where
  "asyncAwait_app tu =
     app_listen 3000 (app_use error_middleware
       (app_get ''/'' (asyncAwait_wrap (asyncAwait_handler tu)) express))"

text \<open>The routes an application has registered, as pairs of method and path.\<close>

fun route_of :: "layer \<Rightarrow> (string \<times> string) list" where
  "route_of (Route m path h) = [(m, path)]"
| "route_of (ErrorMiddleware h) = []"

definition routes :: "app \<Rightarrow> (string \<times> string) list" where
  "routes a = concat (map route_of (stack a))"

text \<open>
  Modelled from the spec: the file of the module \<^verbatim>\<open>testUtils\<close> is missing from the
  sources. The specification describes its two operations as one that always succeeds,
  returning a fixed greeting string, and one that always fails, producing a fixed error
  message; the greeting and the message are those of the output the programs document,
  \<^verbatim>\<open>Hello World\<close> and \<^verbatim>\<open>oh no!\<close>.
\<close>

definition demo_testUtils :: testUtils where
  "demo_testUtils =
     \<lparr>asyncTaskGood = Resolves (Str ''Hello World''),
      asyncTaskBad = Rejects (new_Error ''oh no!'')\<rparr>"

subsection \<open>Handlers in general\<close>

text \<open>
  The three handlers are one piece of logic in three notations: a sequence of steps, each
  an asynchronous operation followed by writes of texts computed from its result. The
  definitions below give, for any such sequence, the handler in each notation, following
  the shape of the handler of the corresponding program.
\<close>

type_synonym step = "task \<times> (jsval \<Rightarrow> string list)"

text \<open>The statements \<^verbatim>\<open>res.write(s1); res.write(s2); ...\<close> in a function body.\<close>

fun write_stmts :: "arg \<Rightarrow> string list \<Rightarrow> world \<Rightarrow> ret \<times> world" where
  "write_stmts res [] w = (Returns Undefined, w)"
| "write_stmts res (s # ss) w = and_then (call_write res s w) (write_stmts res ss)"

text \<open>The same statements in the body of a generator, followed by the rest of the body.\<close>

fun writes :: "arg \<Rightarrow> string list \<Rightarrow> generator \<Rightarrow> generator" where
  "writes res [] g = g"
| "writes res (s # ss) g = Write res s (writes res ss g)"

text \<open>
  The body \<^verbatim>\<open>let result = yield t1(); res.write(...); let result2 = yield t2(); ...\<close>
  of a generator function or, with \<^verbatim>\<open>await\<close>, of an \<^verbatim>\<open>async\<close> function.
\<close>

fun steps_body :: "step list \<Rightarrow> arg \<Rightarrow> generator" where
  "steps_body [] res = Return Undefined"
| "steps_body ((t, f) # ss) res =
     yield_call t (\<lambda>result. writes res (f result) (steps_body ss res))"

definition steps_generator :: "step list \<Rightarrow> arg list \<Rightarrow> generator" where
  "steps_generator l = (\<lambda>args. let res = nth_arg args 1 in steps_body l res)"

text \<open>
  The promise chain
  \<^verbatim>\<open>t1().then(function (result) { res.write(...); return t2() }).then(...).catch(next)\<close>:
  the callback of a step writes and returns the promise of the operation of the next
  step; the callback of the last step returns nothing.
\<close>

fun chain_rest ::
  "promise \<Rightarrow> (jsval \<Rightarrow> string list) \<Rightarrow> step list \<Rightarrow> arg \<Rightarrow> world \<Rightarrow> promise \<times> world" where
  "chain_rest p f [] res w =
     promise_then p
       (\<lambda>result w. and_then (write_stmts res (f result) w) (\<lambda>w. (Returns Undefined, w))) w"
| "chain_rest p f ((t, f') # ss) res w =
     (case promise_then p
             (\<lambda>result w.
                and_then (write_stmts res (f result) w)
                  (\<lambda>w. case call_task t of
                          Inl e \<Rightarrow> (Throws e, w)
                        | Inr q \<Rightarrow> (ReturnsPromise q, w))) w of
        (p', w') \<Rightarrow> chain_rest p' f' ss res w')"

fun chained_handler :: "step list \<Rightarrow> fn" where
  "chained_handler [] = (\<lambda>args w. (Returns Undefined, w))"
| "chained_handler ((t, f) # ss) =
     (\<lambda>args w.
        let res = nth_arg args 1; next = nth_arg args 2 in
        case call_task t of
          Inl e \<Rightarrow> (Throws e, w)
        | Inr p0 \<Rightarrow>
            (case chain_rest p0 f ss res w of
               (p, w1) \<Rightarrow>
                 (case promise_catch p next w1 of
                    (q, w2) \<Rightarrow> (Returns Undefined, discard q w2))))"

text \<open>The steps of the handlers of the three programs.\<close>

definition sample_steps :: "testUtils \<Rightarrow> step list" where
  "sample_steps tu =
     [(asyncTaskGood tu, \<lambda>result. [template result]),
      (asyncTaskBad tu, \<lambda>_. [''will not make it here''])]"

text \<open>
  The three notations: the promise chain of \<^verbatim>\<open>promises.js\<close>, the generator wrapped as
  in \<^verbatim>\<open>generators.js\<close>, the \<^verbatim>\<open>async\<close> function wrapped as in \<^verbatim>\<open>asyncAwait.js\<close>.
\<close>

datatype variant = Chained | Coroutine | Native

fun variant_handler :: "variant \<Rightarrow> step list \<Rightarrow> fn" where
  "variant_handler Chained l = chained_handler l"
| "variant_handler Coroutine l = generators_wrap (steps_generator l)"
| "variant_handler Native l = asyncAwait_wrap (async_function (steps_generator l))"

text \<open>The program around a handler, the same in the three files.\<close>

definition sample_app :: "fn \<Rightarrow> app" where
  "sample_app h =
     app_listen 3000 (app_use error_middleware (app_get ''/'' h express))"

text \<open>
  A step whose operation succeeds, the texts a sequence of such steps writes, and the
  data the error-handling middleware sends for a failure value.
\<close>

fun resolving :: "step \<Rightarrow> bool" where
  "resolving (Resolves v, f) = True"
| "resolving (Rejects e, f) = False"
| "resolving (Raises e, f) = False"

fun step_writes :: "step \<Rightarrow> string list" where
  "step_writes (Resolves v, f) = f v"
| "step_writes (Rejects e, f) = []"
| "step_writes (Raises e, f) = []"

definition writes_of :: "step list \<Rightarrow> string list" where
  "writes_of l = concat (map step_writes l)"

definition message_data :: "jsval \<Rightarrow> string list" where
  "message_data e = (case get_message (Val e) of Inr (Str m) \<Rightarrow> [m] | _ \<Rightarrow> [])"

text \<open>
  What a client and the operator of the server can observe of a request: everything but
  the log of who called \<^verbatim>\<open>next\<close>.
\<close>

definition observable :: "world \<Rightarrow> world" where
  "observable w = w\<lparr>next_calls := []\<rparr>"

text \<open>
  The answer to the documented request, \<^verbatim>\<open>GET /\<close> on port 3000, by the program around
  the handler of a sequence of steps in one of the notations.
\<close>

definition answer :: "variant \<Rightarrow> step list \<Rightarrow> world" where
  "answer v l = serve (sample_app (variant_handler v l)) 3000 (GET ''/'') fresh"

subsection \<open>Auxiliary definitions\<close>

text \<open>
  Closed forms used by the lemmas: a block of writes, what the stack after the route does
  with a value given to \<^verbatim>\<open>next\<close>, the forwarding of the outcome of a driven body, the
  requests the route answers, and the outcome and the texts of a sequence of steps.
\<close>

definition write_chunks :: "string list \<Rightarrow> world \<Rightarrow> world" where
  "write_chunks ss w = (if res_ended w then w else w\<lparr>res_chunks := res_chunks w @ ss\<rparr>)"

definition on_failure :: "request \<Rightarrow> jsval \<Rightarrow> world \<Rightarrow> world" where
  "on_failure req = (\<lambda>e. handle [ErrorMiddleware error_middleware] req (as_error e))"

fun forward :: "(jsval \<Rightarrow> world \<Rightarrow> world) \<Rightarrow> promise \<times> world \<Rightarrow> world" where
  "forward k (Fulfilled v, w) = w"
| "forward k (Rejected e, w) = k e (w\<lparr>next_calls := next_calls w @ [e]\<rparr>)"

definition matches :: "request \<Rightarrow> bool" where
  "matches req = (method_matches ''GET'' (req_method req) \<and> req_path req = ''/'')"

fun steps_result :: "step list \<Rightarrow> promise" where
  "steps_result [] = Fulfilled Undefined"
| "steps_result ((Resolves v, f) # ss) = steps_result ss"
| "steps_result ((Rejects e, f) # ss) = Rejected e"
| "steps_result ((Raises e, f) # ss) = Rejected e"

fun steps_written :: "step list \<Rightarrow> string list" where
  "steps_written [] = []"
| "steps_written ((Resolves v, f) # ss) = f v @ steps_written ss"
| "steps_written ((Rejects e, f) # ss) = []"
| "steps_written ((Raises e, f) # ss) = []"

section \<open>Lemmas\<close>

subsection \<open>The handlers of the programs are instances of the general ones\<close>

lemma write_stmts_Nil: "write_stmts res [] = (\<lambda>w. (Returns Undefined, w))"
  by (rule ext) simp

lemma and_then_unit: "and_then (and_then rw (\<lambda>w. (Returns Undefined, w))) k = and_then rw k"
  by (cases rw; cases "fst rw") (simp_all add: and_then_def)

lemma generators_handler_steps: "generators_handler tu = steps_generator (sample_steps tu)"
  by (simp add: generators_handler_def steps_generator_def sample_steps_def)

lemma asyncAwait_handler_steps:
  "asyncAwait_handler tu = async_function (steps_generator (sample_steps tu))"
  by (simp add: asyncAwait_handler_def steps_generator_def sample_steps_def)

lemma promises_handler_steps: "promises_handler tu = chained_handler (sample_steps tu)"
  by (simp add: promises_handler_def sample_steps_def write_stmts_Nil and_then_unit fun_eq_iff
        split: sum.splits prod.splits)

lemma programs_are_samples:
  "promises_app tu = sample_app (variant_handler Chained (sample_steps tu))"
  "generators_app tu = sample_app (variant_handler Coroutine (sample_steps tu))"
  "asyncAwait_app tu = sample_app (variant_handler Native (sample_steps tu))"
  by (simp_all add: promises_app_def generators_app_def asyncAwait_app_def sample_app_def
      promises_handler_steps generators_handler_steps asyncAwait_handler_steps)

subsection \<open>Writes\<close>

lemma write_chunks_append: "write_chunks b (write_chunks a w) = write_chunks (a @ b) w"
  by (simp add: write_chunks_def)

lemma write_chunks_Nil: "write_chunks [] w = w"
  by (simp add: write_chunks_def)

lemma write_chunks_fields:
  "stage_calls (write_chunks ss w) = stage_calls w"
  "next_calls (write_chunks ss w) = next_calls w"
  "unhandled (write_chunks ss w) = unhandled w"
  "passed_on (write_chunks ss w) = passed_on w"
  "res_ended (write_chunks ss w) = res_ended w"
  by (simp_all add: write_chunks_def)

lemma write_stmts_Res: "write_stmts Res ss w = (Returns Undefined, write_chunks ss w)"
  by (induction ss arbitrary: w)
    (simp_all add: write_chunks_def and_then_def call_write_def res_write_def)

lemma drive_writes_Res: "drive (writes Res ss g) w = drive g (write_chunks ss w)"
  by (induction ss arbitrary: w) (simp_all add: write_chunks_def call_write_def res_write_def)

subsection \<open>The promise chain does what the driven body does\<close>

lemma chain_rest_Rejected: "chain_rest (Rejected e) f ss res w = (Rejected e, w)"
  by (induction ss arbitrary: f w) (auto split: prod.splits)

lemma chain_rest_Fulfilled:
  "chain_rest (Fulfilled v) f ss Res w = drive (writes Res (f v) (steps_body ss Res)) w"
proof (induction ss arbitrary: v f w)
  case Nil
  show ?case by (simp add: write_stmts_Res drive_writes_Res and_then_def)
next
  case (Cons a ss)
  obtain t f' where a: "a = (t, f')" by (cases a)
  show ?case
    by (cases t)
      (simp_all add: a write_stmts_Res drive_writes_Res and_then_def yield_call_def
        Cons.IH chain_rest_Rejected)
qed

lemma drive_steps:
  "drive (steps_body l Res) w = (steps_result l, write_chunks (steps_written l) w)"
  by (induction l arbitrary: w rule: steps_result.induct)
    (simp_all add: yield_call_def drive_writes_Res write_chunks_append write_chunks_Nil)

lemma steps_generator_served: "steps_generator l [Req req, Res, cb] = steps_body l Res"
  by (simp add: steps_generator_def nth_arg_def)

text \<open>The driver touches nothing but the data of the response.\<close>

lemma drive_logs:
  "stage_calls (snd (drive g w)) = stage_calls w \<and> next_calls (snd (drive g w)) = next_calls w
   \<and> unhandled (snd (drive g w)) = unhandled w \<and> passed_on (snd (drive g w)) = passed_on w
   \<and> res_ended (snd (drive g w)) = res_ended w"
proof (induction g arbitrary: w)
  case (Return v)
  show ?case by simp
next
  case (Throw e)
  show ?case by simp
next
  case (Write r s g)
  show ?case
    by (cases r) (simp_all add: call_write_def res_write_def Write.IH)
next
  case (Yield p k h)
  show ?case
    by (cases p) (simp_all add: Yield.IH rangeI)
qed

subsection \<open>Serving a request\<close>

lemma matches_GET: "matches (GET ''/'')"
  by (simp add: matches_def method_matches_def GET_def)

lemma serve_sample_app:
  "serve (sample_app h) n req w =
     (if n = 3000 then
        if matches req
        then settle (on_failure req) (h [Req req, Res, next_callback (on_failure req)] w)
        else w\<lparr>passed_on := passed_on w @ [None]\<rparr>
      else w)"
  by (simp add: serve_def sample_app_def app_listen_def app_use_def app_get_def express_def
      on_failure_def matches_def)

lemma ended_idem: "res_ended w \<Longrightarrow> w\<lparr>res_ended := True\<rparr> = w"
  by (cases w) simp

lemma on_failure_eq:
  "on_failure req e w =
     (if is_error e
      then (write_chunks (message_data e)
              (w\<lparr>stage_calls := stage_calls w @ [e]\<rparr>))\<lparr>res_ended := True\<rparr>
      else w\<lparr>passed_on := passed_on w @ [None]\<rparr>)"
  by (cases e)
    (simp_all add: on_failure_def as_error_def error_middleware_def nth_arg_def call_end_def
      res_end_def settle_def message_data_def write_chunks_def ended_idem)

lemma catch_next:
  "promise_catch (Rejected e) (next_callback k) w =
     (Fulfilled Undefined, k e (w\<lparr>next_calls := next_calls w @ [e]\<rparr>))"
  by (simp add: next_callback_def)

lemma generators_wrap_served:
  "settle k (generators_wrap genFn [Req req, Res, next_callback k] w) =
     forward k (drive (genFn [Req req, Res, next_callback k]) w)"
proof -
  obtain p w1 where d: "drive (genFn [Req req, Res, next_callback k]) w = (p, w1)"
    by (cases "drive (genFn [Req req, Res, next_callback k]) w")
  show ?thesis
    by (cases p)
      (simp_all add: generators_wrap_def Promise_coroutine_def nth_arg_def d settle_def
        catch_next Let_def)
qed

lemma asyncAwait_wrap_served:
  "settle k (asyncAwait_wrap (async_function fbody) [Req req, Res, next_callback k] w) =
     forward k (drive (fbody [Req req, Res, next_callback k]) w)"
proof -
  obtain p w1 where d: "drive (fbody [Req req, Res, next_callback k]) w = (p, w1)"
    by (cases "drive (fbody [Req req, Res, next_callback k]) w")
  show ?thesis
    by (cases p)
      (simp_all add: asyncAwait_wrap_def async_function_def nth_arg_def d settle_def
        catch_next Let_def)
qed

lemma chained_handler_served:
  "settle k (chained_handler l [Req req, Res, next_callback k] w) =
     (case l of
        (Raises e, f) # ss \<Rightarrow> k e w
      | _ \<Rightarrow> forward k (drive (steps_body l Res) w))"
proof (cases l)
  case Nil
  then show ?thesis by (simp add: settle_def)
next
  case (Cons a ss)
  obtain t f where a: "a = (t, f)" by (cases a)
  show ?thesis
  proof (cases t)
    case (Resolves v)
    obtain p w1 where d: "drive (writes Res (f v) (steps_body ss Res)) w = (p, w1)"
      by (cases "drive (writes Res (f v) (steps_body ss Res)) w")
    show ?thesis
      by (cases p)
        (simp_all add: Cons a Resolves nth_arg_def chain_rest_Fulfilled d yield_call_def
          settle_def catch_next Let_def)
  next
    case (Rejects e)
    then show ?thesis
      by (simp add: Cons a nth_arg_def chain_rest_Rejected yield_call_def settle_def
          catch_next Let_def)
  next
    case (Raises e)
    then show ?thesis by (simp add: Cons a nth_arg_def settle_def)
  qed
qed

lemma served_wrapped:
  "v \<noteq> Chained \<Longrightarrow>
   settle k (variant_handler v l [Req req, Res, next_callback k] w) =
     forward k (steps_result l, write_chunks (steps_written l) w)"
  by (cases v)
    (simp_all add: generators_wrap_served asyncAwait_wrap_served steps_generator_served
      drive_steps)

lemma served_chained:
  "settle k (variant_handler Chained l [Req req, Res, next_callback k] w) =
     (case l of
        (Raises e, f) # ss \<Rightarrow> k e w
      | _ \<Rightarrow> forward k (steps_result l, write_chunks (steps_written l) w))"
  unfolding variant_handler.simps chained_handler_served drive_steps ..

lemma answer_wrapped:
  "v \<noteq> Chained \<Longrightarrow>
   answer v l =
     forward (on_failure (GET ''/'')) (steps_result l, write_chunks (steps_written l) fresh)"
  by (simp add: answer_def serve_sample_app matches_GET served_wrapped)

lemma answer_chained:
  "answer Chained l =
     (case l of
        (Raises e, f) # ss \<Rightarrow> on_failure (GET ''/'') e fresh
      | _ \<Rightarrow> forward (on_failure (GET ''/''))
               (steps_result l, write_chunks (steps_written l) fresh))"
  unfolding answer_def serve_sample_app served_chained by (simp add: matches_GET)

subsection \<open>Sequences of steps\<close>


lemma not_raises_first_all:
  "list_all resolving l \<Longrightarrow> (case l of (Raises e', f') # ss \<Rightarrow> a e' | _ \<Rightarrow> b) = b"
  by (cases l) (auto split: task.splits)


lemma steps_succeeding:
  "list_all resolving l \<Longrightarrow>
   steps_result l = Fulfilled Undefined \<and> steps_written l = writes_of l"
  by (induction l rule: steps_result.induct) (simp_all add: writes_of_def)


lemma answer_succeeding:
  assumes "list_all resolving l"
  shows "answer v l = write_chunks (writes_of l) fresh"
proof (cases "v = Chained")
  case True
  then show ?thesis
    by (simp add: answer_chained not_raises_first_all[OF assms] steps_succeeding[OF assms])
next
  case False
  then show ?thesis
    by (simp add: answer_wrapped steps_succeeding[OF assms])
qed


subsection \<open>Counting the invocations of the error-handling middleware\<close>

lemma forward_stage_bound:
  "length (stage_calls (forward (on_failure req) (drive g w))) \<le> Suc (length (stage_calls w))"
proof -
  obtain p w1 where d: "drive g w = (p, w1)" by (cases "drive g w")
  have s: "stage_calls w1 = stage_calls w" using drive_logs[of g w] d by simp
  show ?thesis by (cases p) (simp_all add: d on_failure_eq write_chunks_fields s)
qed

lemma on_failure_stage_bound:
  "length (stage_calls (on_failure req e w)) \<le> Suc (length (stage_calls w))"
  by (simp add: on_failure_eq write_chunks_fields)

subsection \<open>What can be observed\<close>

lemma observable_on_failure:
  "observable (on_failure req e (w\<lparr>next_calls := x\<rparr>)) = observable (on_failure req e w)"
  by (simp add: on_failure_eq observable_def write_chunks_def)

lemma observable_forward:
  "observable (forward (on_failure req) (p, w)) =
     (case p of Fulfilled v \<Rightarrow> observable w | Rejected e \<Rightarrow> observable (on_failure req e w))"
  by (cases p) (simp_all add: observable_on_failure)

lemma observable_served:
  "observable (settle (on_failure req)
      (variant_handler v l [Req req, Res, next_callback (on_failure req)] w)) =
   observable (forward (on_failure req) (steps_result l, write_chunks (steps_written l) w))"
proof (cases "v = Chained")
  case False
  then show ?thesis by (simp add: served_wrapped)
next
  case True
  show ?thesis
  proof (cases l)
    case Nil
    then show ?thesis by (simp add: True settle_def write_chunks_Nil)
  next
    case (Cons a ss)
    obtain t f where a: "a = (t, f)" by (cases a)
    show ?thesis
      unfolding True served_chained Cons a
      by (cases t) (simp_all add: observable_forward observable_on_failure write_chunks_Nil)
  qed
qed

lemma observable_serve:
  "observable (serve (sample_app (variant_handler v l)) n req w) =
   observable (serve (sample_app (variant_handler v' l)) n req w)"
  by (simp add: serve_sample_app observable_served)

lemma observable_fields:
  "res_chunks (observable w) = res_chunks w" "res_ended (observable w) = res_ended w"
  "stage_calls (observable w) = stage_calls w" "unhandled (observable w) = unhandled w"
  "passed_on (observable w) = passed_on w" "body (observable w) = body w"
  by (simp_all add: observable_def body_def)

lemma ended_iff_stage:
  "res_ended (serve (sample_app (variant_handler v l)) n req fresh) =
     (stage_calls (serve (sample_app (variant_handler v l)) n req fresh) \<noteq> [])"
proof -
  have "res_ended (observable (serve (sample_app (variant_handler v l)) n req fresh)) =
     (stage_calls (observable (serve (sample_app (variant_handler v l)) n req fresh)) \<noteq> [])"
    by (simp add: serve_sample_app observable_served observable_forward)
      (simp add: observable_def on_failure_eq write_chunks_def fresh_def split: promise.splits)
  then show ?thesis by (simp add: observable_fields)
qed

subsection \<open>Evaluating the programs\<close>

lemmas app_defs = promises_app_def generators_app_def asyncAwait_app_def app_listen_def
  app_use_def app_get_def express_def serve_def GET_def method_matches_def

lemmas run_defs = promises_handler_def generators_handler_def asyncAwait_handler_def
  asyncAwait_wrap_def generators_wrap_def Promise_coroutine_def async_function_def
  yield_call_def error_middleware_def settle_def next_callback_def as_error_def nth_arg_def
  and_then_def call_write_def res_write_def call_end_def res_end_def template_def fresh_def

lemma greeting_too_short:
  "\<not> (\<exists>pre post. ''Hello World'' @ [CHR 0x0A] @ ''oh no!''
        = pre @ ''will not make it here'' @ post)"
proof
  assume "\<exists>pre post. ''Hello World'' @ [CHR 0x0A] @ ''oh no!''
      = pre @ ''will not make it here'' @ post"
  then obtain pre post
    where e: "''Hello World'' @ [CHR 0x0A] @ ''oh no!'' = pre @ ''will not make it here'' @ post"
    by blast
  from arg_cong[OF e, of length] show False by simp
qed

text \<open>A rejection caught by a callback, or dropped.\<close>

lemma catch_discard:
  "(case promise_catch p cb w1 of (q, w2) \<Rightarrow> (Returns Undefined, discard q w2)) =
     (case p of
        Fulfilled x \<Rightarrow> (Returns Undefined, w1)
      | Rejected e \<Rightarrow>
          (case cb of
             Callback next \<Rightarrow> (Returns Undefined, next e w1)
           | _ \<Rightarrow> (Returns Undefined, w1\<lparr>unhandled := unhandled w1 @ [e]\<rparr>)))"
  by (cases p; cases cb) simp_all

section \<open>The claims\<close>

subsection \<open>The documented scenario\<close>

text \<open>
  C1. For a GET request to the route \<^verbatim>\<open>/\<close>, when the first operation of
  \<^verbatim>\<open>testUtils\<close> resolves with \<^verbatim>\<open>Hello World\<close> and the second rejects with a failure
  whose message is \<^verbatim>\<open>oh no!\<close>, the body of the response of each of the three programs
  is exactly \<^verbatim>\<open>Hello World\<close>, a newline and \<^verbatim>\<open>oh no!\<close>, and the text
  \<^verbatim>\<open>will not make it here\<close> occurs nowhere in it.
\<close>

theorem demo_request_body:
  assumes "asyncTaskGood tu = Resolves (Str ''Hello World'')"
      and "asyncTaskBad tu = Rejects (ErrorObj n ''oh no!'')"
  shows "body (serve (promises_app tu) 3000 (GET ''/'') fresh)
           = ''Hello World'' @ [CHR 0x0A] @ ''oh no!''
       \<and> body (serve (generators_app tu) 3000 (GET ''/'') fresh)
           = ''Hello World'' @ [CHR 0x0A] @ ''oh no!''
       \<and> body (serve (asyncAwait_app tu) 3000 (GET ''/'') fresh)
           = ''Hello World'' @ [CHR 0x0A] @ ''oh no!''
       \<and> \<not> (\<exists>pre post. body (serve (promises_app tu) 3000 (GET ''/'') fresh)
                = pre @ ''will not make it here'' @ post)
       \<and> \<not> (\<exists>pre post. body (serve (generators_app tu) 3000 (GET ''/'') fresh)
                = pre @ ''will not make it here'' @ post)
       \<and> \<not> (\<exists>pre post. body (serve (asyncAwait_app tu) 3000 (GET ''/'') fresh)
                = pre @ ''will not make it here'' @ post)"
proof -
  have p: "body (serve (promises_app tu) 3000 (GET ''/'') fresh)
      = ''Hello World'' @ [CHR 0x0A] @ ''oh no!''"
    using assms by (simp add: app_defs run_defs body_def)
  have g: "body (serve (generators_app tu) 3000 (GET ''/'') fresh)
      = ''Hello World'' @ [CHR 0x0A] @ ''oh no!''"
    using assms by (simp add: app_defs run_defs body_def)
  have a: "body (serve (asyncAwait_app tu) 3000 (GET ''/'') fresh)
      = ''Hello World'' @ [CHR 0x0A] @ ''oh no!''"
    using assms by (simp add: app_defs run_defs body_def)
  show ?thesis
    unfolding p g a using greeting_too_short by simp
qed

theorem demo_request_body_witness:
  "asyncTaskGood demo_testUtils = Resolves (Str ''Hello World'')
   \<and> asyncTaskBad demo_testUtils = Rejects (ErrorObj ''Error'' ''oh no!'')
   \<and> body (serve (promises_app demo_testUtils) 3000 (GET ''/'') fresh)
       = ''Hello World'' @ [CHR 0x0A] @ ''oh no!''
   \<and> body (serve (generators_app demo_testUtils) 3000 (GET ''/'') fresh)
       = ''Hello World'' @ [CHR 0x0A] @ ''oh no!''
   \<and> body (serve (asyncAwait_app demo_testUtils) 3000 (GET ''/'') fresh)
       = ''Hello World'' @ [CHR 0x0A] @ ''oh no!''"
proof -
  have h1: "asyncTaskGood demo_testUtils = Resolves (Str ''Hello World'')"
    by (simp add: demo_testUtils_def)
  have h2: "asyncTaskBad demo_testUtils = Rejects (ErrorObj ''Error'' ''oh no!'')"
    by (simp add: demo_testUtils_def new_Error_def)
  show ?thesis
    using h1 h2 demo_request_body[OF h1 h2] by simp
qed

subsection \<open>Failures\<close>







text \<open>
  C4. For every request, whatever the handler's steps are and wherever a failure arises,
  the error-handling stage is invoked at most once: for every generator body wrapped as
  in \<^verbatim>\<open>generators.js\<close>, every body of an \<^verbatim>\<open>async\<close> function wrapped as in
  \<^verbatim>\<open>asyncAwait.js\<close>, and every promise chain of the shape of \<^verbatim>\<open>promises.js\<close>.
\<close>

theorem no_double_reporting:
  "length (stage_calls (serve (sample_app (generators_wrap genFn)) n req fresh)) \<le> 1
   \<and> length (stage_calls
        (serve (sample_app (asyncAwait_wrap (async_function fbody))) n req fresh)) \<le> 1
   \<and> length (stage_calls (serve (sample_app (chained_handler l)) n req fresh)) \<le> 1"
proof (intro conjI)
  have z: "stage_calls fresh = []" by (simp add: fresh_def)
  show "length (stage_calls (serve (sample_app (generators_wrap genFn)) n req fresh)) \<le> 1"
    using forward_stage_bound[of req _ fresh]
    by (simp add: serve_sample_app generators_wrap_served z)
  show "length (stage_calls
        (serve (sample_app (asyncAwait_wrap (async_function fbody))) n req fresh)) \<le> 1"
    using forward_stage_bound[of req _ fresh]
    by (simp add: serve_sample_app asyncAwait_wrap_served z)
  show "length (stage_calls (serve (sample_app (chained_handler l)) n req fresh)) \<le> 1"
    using forward_stage_bound[of req _ fresh] on_failure_stage_bound[of req _ fresh]
    by (simp add: serve_sample_app chained_handler_served z split: list.splits task.splits)
qed

text \<open>
  C5. The same steps written in the three notations are observably identical: for the
  same request the three programs give the same response (data, body, ended or not) and
  the same invocations of the error-handling stage.
\<close>

theorem variants_equivalent:
  "observable (serve (sample_app (variant_handler v l)) n req fresh)
     = observable (serve (sample_app (variant_handler v' l)) n req fresh)
   \<and> body (serve (sample_app (variant_handler v l)) n req fresh)
     = body (serve (sample_app (variant_handler v' l)) n req fresh)
   \<and> res_ended (serve (sample_app (variant_handler v l)) n req fresh)
     = res_ended (serve (sample_app (variant_handler v' l)) n req fresh)
   \<and> stage_calls (serve (sample_app (variant_handler v l)) n req fresh)
     = stage_calls (serve (sample_app (variant_handler v' l)) n req fresh)"
proof -
  have o: "observable (serve (sample_app (variant_handler v l)) n req fresh)
     = observable (serve (sample_app (variant_handler v' l)) n req fresh)"
    by (rule observable_serve)
  have b: "body (serve (sample_app (variant_handler v l)) n req fresh)
     = body (serve (sample_app (variant_handler v' l)) n req fresh)"
    using arg_cong[OF o, of body] by (simp only: observable_fields)
  have r: "res_ended (serve (sample_app (variant_handler v l)) n req fresh)
     = res_ended (serve (sample_app (variant_handler v' l)) n req fresh)"
    using arg_cong[OF o, of res_ended] by (simp only: observable_fields)
  have c: "stage_calls (serve (sample_app (variant_handler v l)) n req fresh)
     = stage_calls (serve (sample_app (variant_handler v' l)) n req fresh)"
    using arg_cong[OF o, of stage_calls] by (simp only: observable_fields)
  from o b r c show ?thesis by (intro conjI)
qed

text \<open>
  A failure value that is a string has no message: the error-handling stage, invoked
  with it, ends the response with nothing appended. And on a response that has ended
  already the message of an error object is not appended either.
\<close>

theorem string_failure_sends_no_message:
  "stage_calls (serve (asyncAwait_app
      \<lparr>asyncTaskGood = Resolves (Str ''Hello World''),
       asyncTaskBad = Rejects (Str ''oops'')\<rparr>)
      3000 (GET ''/'') fresh) = [Str ''oops'']
   \<and> res_chunks (serve (asyncAwait_app
      \<lparr>asyncTaskGood = Resolves (Str ''Hello World''),
       asyncTaskBad = Rejects (Str ''oops'')\<rparr>)
      3000 (GET ''/'') fresh) = [''Hello World'' @ [CHR 0x0A]]
   \<and> res_ended (serve (asyncAwait_app
      \<lparr>asyncTaskGood = Resolves (Str ''Hello World''),
       asyncTaskBad = Rejects (Str ''oops'')\<rparr>)
      3000 (GET ''/'') fresh)
   \<and> res_chunks (handle [ErrorMiddleware error_middleware] (GET ''/'')
        (Some (new_Error ''late'')) (fresh\<lparr>res_ended := True\<rparr>)) = []"
  by (simp add: app_defs run_defs new_Error_def)

text \<open>
  C6, amended. Whenever the error-handling stage is invoked with a failure value, it
  ends the response and does not call \<^verbatim>\<open>next\<close>. When the failure value is an error
  object and the response has not ended before, the message text of the error is the
  whole of the data appended at that point: no stack trace, no structured payload. When
  the failure value is a string, which has no message, nothing is appended; and nothing
  is appended to a response that has ended before.
\<close>

theorem error_stage_sends_message:
  "handle (ErrorMiddleware error_middleware # ls) req (Some (ErrorObj n m)) w =
     (if res_ended w then w\<lparr>stage_calls := stage_calls w @ [ErrorObj n m]\<rparr>
      else w\<lparr>stage_calls := stage_calls w @ [ErrorObj n m],
             res_chunks := res_chunks w @ [m], res_ended := True\<rparr>)
   \<and> body (handle (ErrorMiddleware error_middleware # ls) req (Some (ErrorObj n m)) w)
       = (if res_ended w then body w else body w @ m)
   \<and> res_ended (handle (ErrorMiddleware error_middleware # ls) req (Some (ErrorObj n m)) w)
   \<and> handle (ErrorMiddleware error_middleware # ls) req (Some (Str s)) w =
       w\<lparr>stage_calls := stage_calls w @ [Str s], res_ended := True\<rparr>
   \<and> error_middleware [Val (ErrorObj n m), Req req, Res, cb] w =
       (Returns Undefined,
        if res_ended w then w else w\<lparr>res_chunks := res_chunks w @ [m], res_ended := True\<rparr>)
   \<and> error_middleware [Val (Str s), Req req, Res, cb] w =
       (Returns Undefined, w\<lparr>res_ended := True\<rparr>)"
  by (simp add: error_middleware_def nth_arg_def call_end_def res_end_def settle_def body_def)

subsection \<open>Success\<close>

text \<open>
  C7. For a handler whose every asynchronous step succeeds, in each of the three
  notations, the body of the response is the concatenation, in program order, of what
  the handler wrote, and the error-handling stage is not invoked.
\<close>

theorem success_path:
  assumes "list_all resolving l"
  shows "body (answer v l) = concat (writes_of l)
       \<and> res_chunks (answer v l) = writes_of l
       \<and> stage_calls (answer v l) = []
       \<and> next_calls (answer v l) = []
       \<and> unhandled (answer v l) = []"
  by (simp add: answer_succeeding[OF assms] write_chunks_def fresh_def body_def)

theorem success_path_witness:
  "list_all resolving
     [(Resolves (Str ''a''), \<lambda>result. [template result]),
      (Resolves Undefined, \<lambda>result. [''b'', ToString result])]
   \<and> body (answer Coroutine
       [(Resolves (Str ''a''), \<lambda>result. [template result]),
        (Resolves Undefined, \<lambda>result. [''b'', ToString result])])
       = ''a'' @ [CHR 0x0A] @ ''bundefined''
   \<and> stage_calls (answer Coroutine
       [(Resolves (Str ''a''), \<lambda>result. [template result]),
        (Resolves Undefined, \<lambda>result. [''b'', ToString result])]) = []"
proof -
  have h: "list_all resolving
     [(Resolves (Str ''a''), \<lambda>result. [template result]),
      (Resolves Undefined, \<lambda>result. [''b'', ToString result])]"
    by simp
  show ?thesis
    using h success_path[OF h, of Coroutine]
    by (simp add: writes_of_def template_def)
qed

subsection \<open>The programs\<close>

text \<open>
  C8. Each program registers exactly one route, with method GET and path \<^verbatim>\<open>/\<close>, and
  starts the server on port 3000, whatever else it is given.
\<close>

theorem one_route_port_3000:
  "routes (promises_app tu) = [(''GET'', ''/'')] \<and> port (promises_app tu) = Some 3000
   \<and> routes (generators_app tu) = [(''GET'', ''/'')] \<and> port (generators_app tu) = Some 3000
   \<and> routes (asyncAwait_app tu) = [(''GET'', ''/'')] \<and> port (asyncAwait_app tu) = Some 3000"
  by (simp add: routes_def promises_app_def generators_app_def asyncAwait_app_def
      app_listen_def app_use_def app_get_def express_def)

text \<open>
  C9. When both operations succeed, each of the three programs answers the documented
  request with the two writes of the handler and nothing more: the world after the
  request is the fresh one but for the two chunks written, so \<^verbatim>\<open>next\<close> has not been
  called, the error-handling stage has not been invoked, and the response is left
  written but not ended. In general the response of a request is ended only when the
  error-handling stage has been invoked.
\<close>

theorem success_leaves_response_open:
  "(asyncTaskGood tu = Resolves x \<and> asyncTaskBad tu = Resolves y \<longrightarrow>
      serve (promises_app tu) 3000 (GET ''/'') fresh
        = fresh\<lparr>res_chunks := [template x, ''will not make it here'']\<rparr>
    \<and> serve (generators_app tu) 3000 (GET ''/'') fresh
        = fresh\<lparr>res_chunks := [template x, ''will not make it here'']\<rparr>
    \<and> serve (asyncAwait_app tu) 3000 (GET ''/'') fresh
        = fresh\<lparr>res_chunks := [template x, ''will not make it here'']\<rparr>)
   \<and> (res_ended (serve (sample_app (variant_handler v l)) n req fresh) \<longrightarrow>
        stage_calls (serve (sample_app (variant_handler v l)) n req fresh) \<noteq> [])"
proof (intro conjI impI)
  assume a: "asyncTaskGood tu = Resolves x \<and> asyncTaskBad tu = Resolves y"
  show "serve (promises_app tu) 3000 (GET ''/'') fresh
        = fresh\<lparr>res_chunks := [template x, ''will not make it here'']\<rparr>"
    using a by (simp add: app_defs run_defs)
  show "serve (generators_app tu) 3000 (GET ''/'') fresh
        = fresh\<lparr>res_chunks := [template x, ''will not make it here'']\<rparr>"
    using a by (simp add: app_defs run_defs)
  show "serve (asyncAwait_app tu) 3000 (GET ''/'') fresh
        = fresh\<lparr>res_chunks := [template x, ''will not make it here'']\<rparr>"
    using a by (simp add: app_defs run_defs)
next
  assume "res_ended (serve (sample_app (variant_handler v l)) n req fresh)"
  then show "stage_calls (serve (sample_app (variant_handler v l)) n req fresh) \<noteq> []"
    by (simp add: ended_iff_stage)
qed

theorem success_leaves_response_open_witness:
  "asyncTaskGood \<lparr>asyncTaskGood = Resolves (Str ''Hello World''),
                  asyncTaskBad = Resolves Undefined\<rparr> = Resolves (Str ''Hello World'')
   \<and> asyncTaskBad \<lparr>asyncTaskGood = Resolves (Str ''Hello World''),
                   asyncTaskBad = Resolves Undefined\<rparr> = Resolves Undefined
   \<and> res_chunks (serve (asyncAwait_app \<lparr>asyncTaskGood = Resolves (Str ''Hello World''),
        asyncTaskBad = Resolves Undefined\<rparr>) 3000 (GET ''/'') fresh)
       = [''Hello World'' @ [CHR 0x0A], ''will not make it here'']
   \<and> \<not> res_ended (serve (asyncAwait_app \<lparr>asyncTaskGood = Resolves (Str ''Hello World''),
        asyncTaskBad = Resolves Undefined\<rparr>) 3000 (GET ''/'') fresh)
   \<and> next_calls (serve (asyncAwait_app \<lparr>asyncTaskGood = Resolves (Str ''Hello World''),
        asyncTaskBad = Resolves Undefined\<rparr>) 3000 (GET ''/'') fresh) = []
   \<and> res_ended (serve (sample_app (variant_handler Native (sample_steps demo_testUtils)))
        3000 (GET ''/'') fresh)
   \<and> stage_calls (serve (sample_app (variant_handler Native (sample_steps demo_testUtils)))
        3000 (GET ''/'') fresh) \<noteq> []"
proof -
  have e: "res_ended (serve (sample_app (variant_handler Native (sample_steps demo_testUtils)))
        3000 (GET ''/'') fresh)"
    unfolding programs_are_samples(3)[symmetric]
    by (simp add: demo_testUtils_def new_Error_def app_defs run_defs)
  show ?thesis
    using e
      success_leaves_response_open[of
        "\<lparr>asyncTaskGood = Resolves (Str ''Hello World''), asyncTaskBad = Resolves Undefined\<rparr>"
        "Str ''Hello World''" Undefined Native "sample_steps demo_testUtils" 3000 "GET ''/''"]
    by (simp add: template_def fresh_def)
qed

text \<open>
  C10. In \<^verbatim>\<open>asyncAwait.js\<close> the wrapper calls the wrapped function with the very
  argument list it was given and, when the promise of the call is rejected, calls the
  third element of that list with the reason, whatever parameters the wrapped function
  declares: the handler of the program declares two, and a body that uses a fourth
  argument finds it. In \<^verbatim>\<open>generators.js\<close> the wrapper has three parameters: the
  coroutine is called with the first three arguments and what follows them is dropped,
  so that a body that uses a fourth argument finds \<^verbatim>\<open>undefined\<close>; on rejection the
  third argument is called with the reason.
\<close>

theorem wrap_arguments:
  "asyncAwait_wrap (async_function fbody) args w =
     (case drive (fbody args) w of
        (Fulfilled x, w1) \<Rightarrow> (ReturnsPromise (Fulfilled x), w1)
      | (Rejected e, w1) \<Rightarrow>
          (case nth_arg args 2 of
             Callback next \<Rightarrow> (ReturnsPromise (Fulfilled Undefined), next e w1)
           | _ \<Rightarrow> (ReturnsPromise (Rejected e), w1)))
   \<and> generators_wrap genFn args w =
     (case drive (genFn [nth_arg args 0, nth_arg args 1, nth_arg args 2]) w of
        (Fulfilled x, w1) \<Rightarrow> (Returns Undefined, w1)
      | (Rejected e, w1) \<Rightarrow>
          (case nth_arg args 2 of
             Callback next \<Rightarrow> (Returns Undefined, next e w1)
           | _ \<Rightarrow> (Returns Undefined, w1\<lparr>unhandled := unhandled w1 @ [e]\<rparr>)))
   \<and> generators_wrap genFn (a # b # c # extra) w = generators_wrap genFn [a, b, c] w
   \<and> (drive (fbody (a # b # Callback nxt # extra)) w = (Rejected e, w1) \<longrightarrow>
        asyncAwait_wrap (async_function fbody) (a # b # Callback nxt # extra) w
          = (ReturnsPromise (Fulfilled Undefined), nxt e w1))
   \<and> (drive (genFn [a, b, Callback nxt]) w = (Rejected e, w1) \<longrightarrow>
        generators_wrap genFn (a # b # Callback nxt # extra) w
          = (Returns Undefined, nxt e w1))
   \<and> (asyncTaskGood tu = Resolves x \<and> asyncTaskBad tu = Rejects e \<longrightarrow>
        asyncAwait_wrap (asyncAwait_handler tu) (Req req # Res # Callback nxt # extra) w
          = (ReturnsPromise (Fulfilled Undefined), nxt e (res_write (template x) w)))
   \<and> (asyncTaskGood tu = Resolves x \<and> asyncTaskBad tu = Rejects e \<longrightarrow>
        generators_wrap (generators_handler tu) (Req req # Res # Callback nxt # extra) w
          = (Returns Undefined, nxt e (res_write (template x) w)))
   \<and> asyncAwait_wrap
        (async_function (\<lambda>args. Write (nth_arg args 3) s (Return Undefined)))
        [a, b, Callback nxt, Res] w
       = (ReturnsPromise (Fulfilled Undefined), res_write s w)
   \<and> (\<exists>t. generators_wrap (\<lambda>args. Write (nth_arg args 3) s (Return Undefined))
              [a, b, Callback nxt, Res] w
            = (Returns Undefined, nxt t w))"
proof (intro conjI impI)
  obtain p w1 where d: "drive (fbody args) w = (p, w1)" by (cases "drive (fbody args) w")
  show "asyncAwait_wrap (async_function fbody) args w =
     (case drive (fbody args) w of
        (Fulfilled x, w1) \<Rightarrow> (ReturnsPromise (Fulfilled x), w1)
      | (Rejected e, w1) \<Rightarrow>
          (case nth_arg args 2 of
             Callback next \<Rightarrow> (ReturnsPromise (Fulfilled Undefined), next e w1)
           | _ \<Rightarrow> (ReturnsPromise (Rejected e), w1)))"
    by (cases p; cases "nth_arg args 2")
      (simp_all add: asyncAwait_wrap_def async_function_def d)
next
  show "generators_wrap genFn args w =
     (case drive (genFn [nth_arg args 0, nth_arg args 1, nth_arg args 2]) w of
        (Fulfilled x, w1) \<Rightarrow> (Returns Undefined, w1)
      | (Rejected e, w1) \<Rightarrow>
          (case nth_arg args 2 of
             Callback next \<Rightarrow> (Returns Undefined, next e w1)
           | _ \<Rightarrow> (Returns Undefined, w1\<lparr>unhandled := unhandled w1 @ [e]\<rparr>)))"
    unfolding generators_wrap_def Promise_coroutine_def Let_def
    by (simp add: catch_discard split: prod.splits promise.splits)
next
  show "generators_wrap genFn (a # b # c # extra) w = generators_wrap genFn [a, b, c] w"
    by (simp add: generators_wrap_def nth_arg_def)
next
  assume "drive (fbody (a # b # Callback nxt # extra)) w = (Rejected e, w1)"
  then show "asyncAwait_wrap (async_function fbody) (a # b # Callback nxt # extra) w
          = (ReturnsPromise (Fulfilled Undefined), nxt e w1)"
    by (simp add: asyncAwait_wrap_def async_function_def nth_arg_def)
next
  assume "drive (genFn [a, b, Callback nxt]) w = (Rejected e, w1)"
  then show "generators_wrap genFn (a # b # Callback nxt # extra) w
          = (Returns Undefined, nxt e w1)"
    by (simp add: generators_wrap_def Promise_coroutine_def nth_arg_def)
next
  assume "asyncTaskGood tu = Resolves x \<and> asyncTaskBad tu = Rejects e"
  then show "asyncAwait_wrap (asyncAwait_handler tu) (Req req # Res # Callback nxt # extra) w
          = (ReturnsPromise (Fulfilled Undefined), nxt e (res_write (template x) w))"
    by (simp add: asyncAwait_wrap_def asyncAwait_handler_def async_function_def nth_arg_def
        yield_call_def call_write_def)
next
  assume "asyncTaskGood tu = Resolves x \<and> asyncTaskBad tu = Rejects e"
  then show "generators_wrap (generators_handler tu) (Req req # Res # Callback nxt # extra) w
          = (Returns Undefined, nxt e (res_write (template x) w))"
    by (simp add: generators_wrap_def generators_handler_def Promise_coroutine_def nth_arg_def
        yield_call_def call_write_def)
next
  show "asyncAwait_wrap
        (async_function (\<lambda>args. Write (nth_arg args 3) s (Return Undefined)))
        [a, b, Callback nxt, Res] w
       = (ReturnsPromise (Fulfilled Undefined), res_write s w)"
    by (simp add: asyncAwait_wrap_def async_function_def nth_arg_def call_write_def)
next
  show "\<exists>t. generators_wrap (\<lambda>args. Write (nth_arg args 3) s (Return Undefined))
              [a, b, Callback nxt, Res] w
            = (Returns Undefined, nxt t w)"
    by (rule exI[of _ "TypeError ''write is not a function''"])
      (simp add: generators_wrap_def Promise_coroutine_def nth_arg_def call_write_def)
qed

theorem wrap_arguments_witness:
  "asyncTaskGood demo_testUtils = Resolves (Str ''Hello World'')
   \<and> asyncTaskBad demo_testUtils = Rejects (new_Error ''oh no!'')
   \<and> drive (generators_handler demo_testUtils
        [Req (GET ''/''), Res, Callback (on_failure (GET ''/''))]) fresh
       = (Rejected (new_Error ''oh no!''),
          fresh\<lparr>res_chunks := [''Hello World'' @ [CHR 0x0A]]\<rparr>)
   \<and> asyncAwait_wrap (async_function (generators_handler demo_testUtils))
        [Req (GET ''/''), Res, Callback (on_failure (GET ''/''))] fresh
       = (ReturnsPromise (Fulfilled Undefined),
          on_failure (GET ''/'') (new_Error ''oh no!'')
            (fresh\<lparr>res_chunks := [''Hello World'' @ [CHR 0x0A]]\<rparr>))
   \<and> generators_wrap (generators_handler demo_testUtils)
        [Req (GET ''/''), Res, Callback (on_failure (GET ''/'')), Val Undefined] fresh
       = (Returns Undefined,
          on_failure (GET ''/'') (new_Error ''oh no!'')
            (fresh\<lparr>res_chunks := [''Hello World'' @ [CHR 0x0A]]\<rparr>))
   \<and> asyncAwait_wrap (asyncAwait_handler demo_testUtils)
        [Req (GET ''/''), Res, Callback (on_failure (GET ''/''))] fresh
       = (ReturnsPromise (Fulfilled Undefined),
          on_failure (GET ''/'') (new_Error ''oh no!'')
            (res_write (template (Str ''Hello World'')) fresh))
   \<and> res_chunks (on_failure (GET ''/'') (new_Error ''oh no!'')
        (res_write (template (Str ''Hello World'')) fresh))
       = [''Hello World'' @ [CHR 0x0A], ''oh no!'']"
proof -
  have t: "asyncTaskGood demo_testUtils = Resolves (Str ''Hello World'')
      \<and> asyncTaskBad demo_testUtils = Rejects (new_Error ''oh no!'')"
    by (simp add: demo_testUtils_def)
  have d: "drive (generators_handler demo_testUtils
        [Req (GET ''/''), Res, Callback (on_failure (GET ''/''))]) fresh
       = (Rejected (new_Error ''oh no!''),
          fresh\<lparr>res_chunks := [''Hello World'' @ [CHR 0x0A]]\<rparr>)"
    by (simp add: generators_handler_def demo_testUtils_def nth_arg_def yield_call_def
        call_write_def res_write_def template_def fresh_def)
  note W = wrap_arguments[where fbody = "generators_handler demo_testUtils"
      and genFn = "generators_handler demo_testUtils" and a = "Req (GET ''/'')" and b = Res
      and nxt = "on_failure (GET ''/'')" and e = "new_Error ''oh no!''" and w = fresh
      and ?w1.0 = "fresh\<lparr>res_chunks := [''Hello World'' @ [CHR 0x0A]]\<rparr>"
      and tu = demo_testUtils and x = "Str ''Hello World''" and req = "GET ''/''"]
  note c4 = W[where extra = "[]", THEN conjunct2, THEN conjunct2, THEN conjunct2,
      THEN conjunct1, rule_format, OF d]
  note c5 = W[where extra = "[Val Undefined]", THEN conjunct2, THEN conjunct2,
      THEN conjunct2, THEN conjunct2, THEN conjunct1, rule_format, OF d]
  note c6 = W[where extra = "[]", THEN conjunct2, THEN conjunct2, THEN conjunct2,
      THEN conjunct2, THEN conjunct2, THEN conjunct1, rule_format, OF t]
  have r: "res_chunks (on_failure (GET ''/'') (new_Error ''oh no!'')
        (res_write (template (Str ''Hello World'')) fresh))
       = [''Hello World'' @ [CHR 0x0A], ''oh no!'']"
    by (simp add: on_failure_eq message_data_def new_Error_def write_chunks_def res_write_def
        template_def fresh_def)
  from t d c4 c5 c6 r show ?thesis by (intro conjI) (simp_all only:)
qed

end
